theory Spec2Isabelle
  imports Complex_Main "HOL-Library.Word" "HOL-Library.Sublist"
begin

section \<open>Handmade Chocolate API: a shallow embedding of main.py\<close>

text \<open>
  The service is a set of FastAPI endpoints over one global handle \<open>db\<close> (a pymongo
  database, or \<open>None\<close> when the connection was never configured). Each endpoint is
  modelled as a function of its arguments and of \<open>db\<close>; an endpoint that writes returns
  the new \<open>db\<close> as well. A raised exception is the \<open>Inl\<close> of a sum.

  Python strings are modelled as \<open>string\<close> (lists of 8-bit characters); the model is
  exact for ASCII text, and non-ASCII literals of the source are their UTF-8 bytes.
\<close>

subsection \<open>Exceptions\<close>

datatype exn =
    Exception string
  | InvalidId string
  | PyMongoError string
  | HTTPException nat string

fun dec :: "nat \<Rightarrow> string" where
  "dec n = (if n < 10 then [char_of (48 + n)] else dec (n div 10) @ [char_of (48 + n mod 10)])"

declare dec.simps [simp del]

text \<open>
  \<open>str(e)\<close>. \<open>InvalidId\<close> carries the rejected input; bson formats it with \<open>%r\<close>, which
  for a string without quotes, backslashes or control characters is the string between
  single quotes (other escapes are not modelled). Starlette prints an \<open>HTTPException\<close> as
  \<open>status: detail\<close>.
\<close>

fun str :: "exn \<Rightarrow> string" where
  "str (Exception m) = m"
| "str (InvalidId s) =
     [CHR 0x27] @ s @ [CHR 0x27] @
     '' is not a valid ObjectId, it must be a 12-byte input or a 24-character hex string''"
| "str (PyMongoError m) = m"
| "str (HTTPException code detail) = dec code @ '': '' @ detail"

subsection \<open>bson.ObjectId\<close>

text \<open>
  An \<open>ObjectId\<close> is its \<open>binary\<close> attribute, a byte string. \<open>ObjectId(s)\<close> on a string
  accepts exactly the strings of length 24 that \<open>bytes.fromhex\<close> decodes, and raises
  \<open>InvalidId\<close> otherwise; \<open>str(oid)\<close> is the lower-case hex of the bytes.
  \<open>bytes.fromhex\<close> reads two hex digits per byte and skips ASCII whitespace between
  bytes.
\<close>

type_synonym byte = "8 word"
type_synonym oid = "byte list"

definition isspace :: "char \<Rightarrow> bool" where
  "isspace c = (let n = (of_char c :: nat) in (9 \<le> n \<and> n \<le> 13) \<or> n = 32)"

definition digit_value :: "char \<Rightarrow> nat" where
  "digit_value c =
     (let n = (of_char c :: nat) in
      if 48 \<le> n \<and> n \<le> 57 then n - 48
      else if 97 \<le> n \<and> n \<le> 122 then n - 87
      else if 65 \<le> n \<and> n \<le> 90 then n - 55
      else 37)"

fun fromhex :: "string \<Rightarrow> byte list option" where
  "fromhex [] = Some []"
| "fromhex (c # cs) =
     (if isspace c then fromhex cs
      else if 16 \<le> digit_value c then None
      else (case cs of
              [] \<Rightarrow> None
            | d # ds \<Rightarrow>
                if 16 \<le> digit_value d then None
                else map_option ((#) (of_nat (digit_value c * 16 + digit_value d)))
                       (fromhex ds)))"

definition ObjectId :: "string \<Rightarrow> exn + oid" where
  "ObjectId s =
     (if length s = 24 then
        (case fromhex s of None \<Rightarrow> Inl (InvalidId s) | Some b \<Rightarrow> Inr b)
      else Inl (InvalidId s))"

definition hexdigit :: "nat \<Rightarrow> char" where
  "hexdigit n = (if n < 10 then char_of (48 + n) else char_of (87 + n))"

definition str_oid :: "oid \<Rightarrow> string" where
  "str_oid b = concat (map (\<lambda>x. [hexdigit (unat x div 16), hexdigit (unat x mod 16)]) b)"

subsection \<open>The product record\<close>

text \<open>
  \<open>ChocolateCreate\<close> is the request model of lines 59-67. \<open>price\<close> is a float that the
  service only stores and returns; it is represented by the number it denotes.
\<close>

record ChocolateCreate =
  name :: string
  description :: string
  price :: real
  category :: string
  cacao_percent :: "int option"
  image :: "string option"
  tags :: "string list option"
  in_stock :: bool

text \<open>
  Modelled from the spec: \<open>schemas.Chocolate\<close> is imported by main.py and is not part of
  the sources. Section 3 of the spec gives the product record the same eight fields, and
  its non-goals exclude validation beyond type coercion at the boundary, so the record
  type is shared and constructing a \<open>Chocolate\<close> from a dumped \<open>ChocolateCreate\<close>
  keeps every field.
\<close>

type_synonym Chocolate = ChocolateCreate

definition Chocolate :: "ChocolateCreate \<Rightarrow> exn + Chocolate" where
  "Chocolate dumped = Inr dumped"

text \<open>A stored document is its \<open>_id\<close> and its other fields; an item of a response
  carries \<open>id\<close>, the string form of \<open>_id\<close>, instead.\<close>

type_synonym document = "oid \<times> Chocolate"
type_synonym item = "string \<times> Chocolate"

subsection \<open>The database handle\<close>

text \<open>
  What the service sees of a pymongo \<open>Database\<close>: its name (every pymongo database
  has the attribute, so \<open>hasattr(db, 'name')\<close> holds), the collection names the server
  reports, the documents of each collection in store order, and \<open>fault\<close>, the exception
  that every call to the server raises while the server does not answer (\<open>None\<close> when
  it does). \<open>pcre\<close> is the server's regular-expression engine for the patterns that
  are not modelled below (see \<open>regex_i\<close>).
\<close>

record Database =
  db_name :: string
  collection_names :: "string list"
  colls :: "string \<Rightarrow> document list"
  fault :: "exn option"
  pcre :: "string \<Rightarrow> (string \<Rightarrow> bool) option"

definition list_collection_names :: "Database \<Rightarrow> exn + string list" where
  "list_collection_names d =
     (case fault d of Some e \<Rightarrow> Inl e | None \<Rightarrow> Inr (collection_names d))"

subsection \<open>The diagnostic endpoint: GET /test\<close>

record diag =
  backend :: string
  database :: string
  database_url :: "string option"
  database_name :: "string option"
  connection_status :: string
  collections :: "string list"

definition check_mark :: string where
  "check_mark = [CHR 0xE2, CHR 0x9C, CHR 0x85]"

definition cross_mark :: string where
  "cross_mark = [CHR 0xE2, CHR 0x9D, CHR 0x8C]"

definition warning_sign :: string where
  "warning_sign = [CHR 0xE2, CHR 0x9A, CHR 0xA0, CHR 0xEF, CHR 0xB8, CHR 0x8F]"

text \<open>
  A block of statements over the response dictionary either completes with the updated
  dictionary or raises, leaving the dictionary as the statements before the raise made
  it. \<open>try_except\<close> is \<open>try: body except Exception as e: handler\<close>.
\<close>

type_synonym 's stmt = "'s \<Rightarrow> (exn \<times> 's) + 's"

definition try_except :: "'s stmt \<Rightarrow> (exn \<Rightarrow> 's stmt) \<Rightarrow> 's stmt" where
  "try_except body handler s =
     (case body s of Inl (e, s') \<Rightarrow> handler e s' | Inr s' \<Rightarrow> Inr s')"

definition truthy :: "string option \<Rightarrow> bool" where
  "truthy v = (case v of None \<Rightarrow> False | Some s \<Rightarrow> s \<noteq> [])"

definition initial_response :: diag where
  "initial_response =
     \<lparr>backend = check_mark @ '' Running'',
      database = cross_mark @ '' Not Available'',
      database_url = None,
      database_name = None,
      connection_status = ''Not Connected'',
      collections = []\<rparr>"

definition collections_check :: "Database \<Rightarrow> diag stmt" where
  "collections_check d =
     try_except
       (\<lambda>response.
          case list_collection_names d of
            Inl e \<Rightarrow> Inl (e, response)
          | Inr cs \<Rightarrow>
              Inr (response\<lparr>collections := take 10 cs,
                            database := check_mark @ '' Connected & Working''\<rparr>))
       (\<lambda>e response.
          Inr (response\<lparr>database :=
                 warning_sign @ ''  Connected but Error: '' @ take 50 (str e)\<rparr>))"

definition database_check :: "Database option \<Rightarrow> diag stmt" where
  "database_check db =
     try_except
       (\<lambda>response.
          case db of
            Some d \<Rightarrow>
              collections_check d
                (response\<lparr>database := check_mark @ '' Available'',
                          database_url := Some (check_mark @ '' Configured''),
                          database_name := Some (db_name d),
                          connection_status := ''Connected''\<rparr>)
          | None \<Rightarrow>
              Inr (response\<lparr>database := warning_sign @ ''  Available but not initialized''\<rparr>))
       (\<lambda>e response.
          Inr (response\<lparr>database := cross_mark @ '' Error: '' @ take 50 (str e)\<rparr>))"

definition test_database :: "Database option \<Rightarrow> (string \<rightharpoonup> string) \<Rightarrow> exn + diag" where
  "test_database db getenv =
     (case database_check db initial_response of
        Inl (e, response) \<Rightarrow> Inl e
      | Inr response \<Rightarrow>
          Inr (response
                 \<lparr>database_url :=
                    Some (if truthy (getenv ''DATABASE_URL'') then check_mark @ '' Set''
                          else cross_mark @ '' Not Set''),
                  database_name :=
                    Some (if truthy (getenv ''DATABASE_NAME'') then check_mark @ '' Set''
                          else cross_mark @ '' Not Set'')\<rparr>))"

subsection \<open>Regular expressions of the store\<close>

text \<open>
  The list endpoint hands its \<open>q\<close> to the server as a \<open>$regex\<close> with option \<open>i\<close>. The
  server's engine is PCRE. Two kinds of pattern character are modelled here: a character
  that is neither a PCRE metacharacter nor NUL stands for itself (in either case, by
  option \<open>i\<close>), and a dot stands for any character but a line feed. A pattern made
  of these only always compiles and is searched for anywhere in the subject. Every
  other pattern is left to the \<open>pcre\<close> field of the database, which says whether it
  compiles (\<open>None\<close> when not) and which subjects it matches.
\<close>

definition lower :: "char \<Rightarrow> char" where
  "lower c = (let n = (of_char c :: nat) in if 65 \<le> n \<and> n \<le> 90 then char_of (n + 32) else c)"

definition metachars :: string where
  "metachars = CHR 0x5C # ''^$.[]|()?*+{}''"


definition modelled :: "string \<Rightarrow> bool" where
  "modelled p =
     list_all (\<lambda>c. c \<noteq> CHR 0x00 \<and> (c = CHR ''.'' \<or> c \<notin> set metachars)) p"

definition char_matches :: "char \<Rightarrow> char \<Rightarrow> bool" where
  "char_matches p c = (if p = CHR ''.'' then c \<noteq> CHR 0x0A else lower p = lower c)"

fun match_here :: "string \<Rightarrow> string \<Rightarrow> bool" where
  "match_here [] s = True"
| "match_here (p # ps) [] = False"
| "match_here (p # ps) (c # cs) = (char_matches p c \<and> match_here ps cs)"

fun search :: "string \<Rightarrow> string \<Rightarrow> bool" where
  "search p [] = match_here p []"
| "search p (c # cs) = (match_here p (c # cs) \<or> search p cs)"

definition regex_i :: "Database \<Rightarrow> string \<Rightarrow> (string \<Rightarrow> bool) option" where
  "regex_i d p = (if modelled p then Some (search p) else pcre d p)"

subsection \<open>Query filters of the store\<close>

text \<open>
  The filters the service builds, as the store reads them: a filter is a list of
  clauses that must all hold; a clause constrains one field or is an \<open>$or\<close> of clauses.
  A condition on a field whose value is an array holds when it holds of the array or
  of one of its elements.
\<close>

datatype bson =
    BNull
  | BBool bool
  | BInt int
  | BDouble real
  | BString string
  | BArray "bson list"
  | BObjectId oid

datatype cond = Eq bson | Regex_i string | In "bson list"

datatype clause = Field string cond | Or "clause list"

type_synonym filter_dict = "clause list"

fun field :: "document \<Rightarrow> string \<Rightarrow> bson option" where
  "field (i, c) k =
     (if k = ''_id'' then Some (BObjectId i)
      else if k = ''name'' then Some (BString (name c))
      else if k = ''description'' then Some (BString (description c))
      else if k = ''price'' then Some (BDouble (price c))
      else if k = ''category'' then Some (BString (category c))
      else if k = ''cacao_percent'' then
        Some (case cacao_percent c of None \<Rightarrow> BNull | Some n \<Rightarrow> BInt n)
      else if k = ''image'' then
        Some (case image c of None \<Rightarrow> BNull | Some u \<Rightarrow> BString u)
      else if k = ''tags'' then
        Some (case tags c of None \<Rightarrow> BNull | Some ts \<Rightarrow> BArray (map BString ts))
      else if k = ''in_stock'' then Some (BBool (in_stock c))
      else None)"

fun regex_value :: "(string \<Rightarrow> bool) \<Rightarrow> bson \<Rightarrow> bool" where
  "regex_value m (BString s) = m s"
| "regex_value m v = False"

fun cond_matches :: "Database \<Rightarrow> cond \<Rightarrow> bson option \<Rightarrow> bool" where
  "cond_matches d (Eq v) None = (v = BNull)"
| "cond_matches d (Eq v) (Some (BArray xs)) = (v = BArray xs \<or> v \<in> set xs)"
| "cond_matches d (Eq v) (Some x) = (x = v)"
| "cond_matches d (Regex_i p) None = False"
| "cond_matches d (Regex_i p) (Some (BArray xs)) =
     (case regex_i d p of None \<Rightarrow> False | Some m \<Rightarrow> list_ex (regex_value m) xs)"
| "cond_matches d (Regex_i p) (Some x) =
     (case regex_i d p of None \<Rightarrow> False | Some m \<Rightarrow> regex_value m x)"
| "cond_matches d (In vs) None = (BNull \<in> set vs)"
| "cond_matches d (In vs) (Some (BArray xs)) =
     (BArray xs \<in> set vs \<or> list_ex (\<lambda>x. x \<in> set vs) xs)"
| "cond_matches d (In vs) (Some x) = (x \<in> set vs)"

fun clause_matches :: "Database \<Rightarrow> document \<Rightarrow> clause \<Rightarrow> bool" where
  "clause_matches d doc (Field k c) = cond_matches d c (field doc k)"
| "clause_matches d doc (Or cs) = list_ex (clause_matches d doc) cs"

definition matches :: "Database \<Rightarrow> filter_dict \<Rightarrow> document \<Rightarrow> bool" where
  "matches d f doc = list_all (clause_matches d doc) f"

text \<open>The server rejects a query that holds a pattern which does not compile.\<close>

fun clause_valid :: "Database \<Rightarrow> clause \<Rightarrow> bool" where
  "clause_valid d (Field k (Regex_i p)) = (regex_i d p \<noteq> None)"
| "clause_valid d (Field k c) = True"
| "clause_valid d (Or cs) = list_all (clause_valid d) cs"

definition filter_valid :: "Database \<Rightarrow> filter_dict \<Rightarrow> bool" where
  "filter_valid d f = list_all (clause_valid d) f"

subsection \<open>Collection operations of the driver\<close>

text \<open>
  \<open>db[c].find(f)\<close>, \<open>find_one\<close>, \<open>count_documents\<close>, \<open>insert_one\<close> and \<open>insert_many\<close>.
  An insert takes the \<open>_id\<close> that the driver generates for the document (\<open>ObjectId()\<close>);
  the server refuses an \<open>_id\<close> the collection already holds. \<open>insert_many\<close> inserts in
  order and stops at the first refusal, keeping what it inserted; \<open>gen k\<close> is the
  identifier generated for its \<open>k\<close>-th document.
\<close>

definition find_docs :: "Database \<Rightarrow> string \<Rightarrow> filter_dict \<Rightarrow> exn + document list" where
  "find_docs d c f =
     (case fault d of
        Some e \<Rightarrow> Inl e
      | None \<Rightarrow>
          if filter_valid d f then Inr (filter (matches d f) (colls d c))
          else Inl (PyMongoError ''Regular expression is invalid''))"

definition find_one :: "Database \<Rightarrow> string \<Rightarrow> filter_dict \<Rightarrow> exn + document option" where
  "find_one d c f =
     (case find_docs d c f of
        Inl e \<Rightarrow> Inl e
      | Inr [] \<Rightarrow> Inr None
      | Inr (doc # rest) \<Rightarrow> Inr (Some doc))"

definition count_documents :: "Database \<Rightarrow> string \<Rightarrow> filter_dict \<Rightarrow> exn + nat" where
  "count_documents d c f =
     (case find_docs d c f of Inl e \<Rightarrow> Inl e | Inr docs \<Rightarrow> Inr (length docs))"

definition insert_one ::
  "Database \<Rightarrow> string \<Rightarrow> oid \<Rightarrow> Chocolate \<Rightarrow> (exn + oid) \<times> Database" where
  "insert_one d c new_id doc =
     (case fault d of
        Some e \<Rightarrow> (Inl e, d)
      | None \<Rightarrow>
          if new_id \<in> set (map fst (colls d c)) then
            (Inl (PyMongoError ''E11000 duplicate key error''), d)
          else (Inr new_id, d\<lparr>colls := (colls d)(c := colls d c @ [(new_id, doc)])\<rparr>))"

fun insert_many_from ::
  "Database \<Rightarrow> string \<Rightarrow> (nat \<Rightarrow> oid) \<Rightarrow> nat \<Rightarrow> Chocolate list \<Rightarrow> (exn + oid list) \<times> Database"
  where
  "insert_many_from d c gen k [] = (Inr [], d)"
| "insert_many_from d c gen k (doc # docs) =
     (case insert_one d c (gen k) doc of
        (Inl e, d') \<Rightarrow> (Inl e, d')
      | (Inr i, d') \<Rightarrow>
          (case insert_many_from d' c gen (Suc k) docs of
             (Inl e, d'') \<Rightarrow> (Inl e, d'')
           | (Inr inserted_ids, d'') \<Rightarrow> (Inr (i # inserted_ids), d'')))"

definition insert_many ::
  "Database \<Rightarrow> string \<Rightarrow> (nat \<Rightarrow> oid) \<Rightarrow> Chocolate list \<Rightarrow> (exn + oid list) \<times> Database" where
  "insert_many d c gen docs = insert_many_from d c gen 0 docs"

subsection \<open>Create: POST /api/chocolates\<close>

text \<open>
  The JSON body that FastAPI validates against \<open>ChocolateCreate\<close>. A body that lacks a
  required field or holds a value of the wrong type never reaches the endpoint, so the
  type has the accepted bodies only. An optional field is omitted or given; a field of
  type \<open>Optional[...]\<close> may be given as \<open>null\<close>. \<open>model_validate\<close> applies the defaults
  of lines 64-67 to the omitted fields.
\<close>

datatype 'a json_field = Omitted | Given 'a

record body =
  body_name :: string
  body_description :: string
  body_price :: real
  body_category :: string
  body_cacao_percent :: "int option json_field"
  body_image :: "string option json_field"
  body_tags :: "string list option json_field"
  body_in_stock :: "bool json_field"

fun default :: "'a \<Rightarrow> 'a json_field \<Rightarrow> 'a" where
  "default v Omitted = v"
| "default v (Given x) = x"

definition model_validate :: "body \<Rightarrow> ChocolateCreate" where
  "model_validate b =
     \<lparr>name = body_name b,
      description = body_description b,
      price = body_price b,
      category = body_category b,
      cacao_percent = default None (body_cacao_percent b),
      image = default None (body_image b),
      tags = default (Some []) (body_tags b),
      in_stock = default True (body_in_stock b)\<rparr>"

text \<open>
  Modelled from the spec: \<open>database.create_document\<close> is imported by main.py and is not
  part of the sources. Section 4.1: insert persists a record and returns its generated
  identifier, and fails if no live connection exists; section 3: the identifier is
  exposed externally as a string.
\<close>

definition create_document ::
  "Database option \<Rightarrow> oid \<Rightarrow> string \<Rightarrow> Chocolate \<Rightarrow> (exn + string) \<times> Database option" where
  "create_document db new_id collection_name data =
     (case db of
        None \<Rightarrow> (Inl (Exception ''Database not available''), None)
      | Some d \<Rightarrow>
          (case insert_one d collection_name new_id data of
             (Inl e, d') \<Rightarrow> (Inl e, Some d')
           | (Inr i, d') \<Rightarrow> (Inr (str_oid i), Some d')))"

text \<open>The response \<open>{"id": inserted_id}\<close> is its one value.\<close>

definition create_chocolate ::
  "ChocolateCreate \<Rightarrow> oid \<Rightarrow> Database option \<Rightarrow> (exn + string) \<times> Database option" where
  "create_chocolate payload new_id db =
     (case (case Chocolate payload of
              Inl e \<Rightarrow> (Inl e, db)
            | Inr chocolate \<Rightarrow> create_document db new_id ''chocolate'' chocolate) of
        (Inl e, db') \<Rightarrow> (Inl (HTTPException 500 (str e)), db')
      | (Inr inserted_id, db') \<Rightarrow> (Inr inserted_id, db'))"

subsection \<open>List: GET /api/chocolates\<close>

text \<open>
  Modelled from the spec: \<open>database.get_documents\<close> is imported by main.py and is not
  part of the sources. Section 4.1: query returns up to \<open>limit\<close> matching records in
  store-native order, and fails if disconnected.
\<close>

definition get_documents ::
  "Database option \<Rightarrow> string \<Rightarrow> filter_dict \<Rightarrow> int \<Rightarrow> exn + document list" where
  "get_documents db collection_name f limit =
     (case db of
        None \<Rightarrow> Inl (Exception ''Database not available'')
      | Some d \<Rightarrow>
          (case find_docs d collection_name f of
             Inl e \<Rightarrow> Inl e
           | Inr docs \<Rightarrow> Inr (take (nat limit) docs)))"

text \<open>\<open>d["id"] = str(d.get("_id")); d.pop("_id", None)\<close>\<close>

fun to_item :: "document \<Rightarrow> item" where
  "to_item (i, c) = (str_oid i, c)"

text \<open>
  \<open>category\<close> and \<open>q\<close> are \<open>None\<close> when the query parameter is absent; \<open>limit\<close> is 50
  when absent. \<open>if category:\<close> and \<open>if q:\<close> test for a non-empty string.
\<close>

definition build_filter :: "string option \<Rightarrow> string option \<Rightarrow> filter_dict" where
  "build_filter category' q =
     (case category' of
        Some c \<Rightarrow> if c \<noteq> [] then [Field ''category'' (Eq (BString c))] else []
      | None \<Rightarrow> []) @
     (case q of
        Some t \<Rightarrow>
          if t \<noteq> [] then
            [Or [Field ''name'' (Regex_i t), Field ''tags'' (In [BString t])]]
          else []
      | None \<Rightarrow> [])"

definition list_chocolates ::
  "string option \<Rightarrow> string option \<Rightarrow> int \<Rightarrow> Database option \<Rightarrow> exn + item list" where
  "list_chocolates category' q limit db =
     (case get_documents db ''chocolate'' (build_filter category' q) limit of
        Inl e \<Rightarrow> Inl (HTTPException 500 (str e))
      | Inr docs \<Rightarrow> Inr (map to_item docs))"

subsection \<open>Get by id: GET /api/chocolates/{choc_id}\<close>

definition get_chocolate_body :: "string \<Rightarrow> Database option \<Rightarrow> exn + item" where
  "get_chocolate_body choc_id db =
     (case db of
        None \<Rightarrow> Inl (Exception ''Database not available'')
      | Some d \<Rightarrow>
          (case ObjectId choc_id of
             Inl e \<Rightarrow> Inl e
           | Inr i \<Rightarrow>
               (case find_one d ''chocolate'' [Field ''_id'' (Eq (BObjectId i))] of
                  Inl e \<Rightarrow> Inl e
                | Inr None \<Rightarrow> Inl (HTTPException 404 ''Chocolate not found'')
                | Inr (Some doc) \<Rightarrow> Inr (to_item doc))))"

definition get_chocolate :: "string \<Rightarrow> Database option \<Rightarrow> exn + item" where
  "get_chocolate choc_id db =
     (case get_chocolate_body choc_id db of
        Inl (HTTPException code detail) \<Rightarrow> Inl (HTTPException code detail)
      | Inl e \<Rightarrow> Inl (HTTPException 500 (str e))
      | Inr doc \<Rightarrow> Inr doc)"

subsection \<open>Seed: POST /api/chocolates/seed\<close>

record seed_response =
  inserted :: nat
  message :: "string option"

definition sample_truffle :: Chocolate where
  "sample_truffle =
     \<lparr>name = ''Sea Salt Caramel Truffle'',
      description =
        ''Silky caramel center with a kiss of sea salt, enrobed in dark chocolate.'',
      price = 3.5,
      category = ''Truffle'',
      cacao_percent = Some 70,
      image = Some
        ''https://images.unsplash.com/photo-1541781774459-bb2af2f05b55?q=80&w=1600&auto=format&fit=crop'',
      tags = Some [''caramel'', ''salted'', ''dark''],
      in_stock = True\<rparr>"

definition sample_praline :: Chocolate where
  "sample_praline =
     \<lparr>name = ''Hazelnut Praline Bonbon'',
      description =
        ''Roasted hazelnut praline with a creamy finish, dipped in milk chocolate.'',
      price = 3.0,
      category = ''Bonbon'',
      cacao_percent = Some 45,
      image = Some
        ''https://images.unsplash.com/photo-1606313564200-e75d5e30476c?q=80&w=1600&auto=format&fit=crop'',
      tags = Some [''hazelnut'', ''praline'', ''milk''],
      in_stock = True\<rparr>"

definition sample_heart :: Chocolate where
  "sample_heart =
     \<lparr>name = ''Raspberry Velvet Heart'',
      description =
        ''Tart raspberry ganache balanced with rich dark chocolate in a heart shell.'',
      price = 3.2,
      category = ''Bonbon'',
      cacao_percent = Some 64,
      image = Some
        ''https://images.unsplash.com/photo-1585145197082-583a1a5b86b8?q=80&w=1600&auto=format&fit=crop'',
      tags = Some [''raspberry'', ''fruit'', ''dark''],
      in_stock = True\<rparr>"

definition sample_bar :: Chocolate where
  "sample_bar =
     \<lparr>name = ''Almond Crunch Bar'',
      description = ''Toasted almond nibs folded into a crisp 72% dark chocolate bar.'',
      price = 6.5,
      category = ''Bar'',
      cacao_percent = Some 72,
      image = Some
        ''https://images.unsplash.com/photo-1624378439575-d8705ad7ae80?q=80&w=1600&auto=format&fit=crop'',
      tags = Some [''almond'', ''bar'', ''dark''],
      in_stock = True\<rparr>"

definition samples :: "Chocolate list" where
  "samples = [sample_truffle, sample_praline, sample_heart, sample_bar]"

definition seed_chocolates_body ::
  "(nat \<Rightarrow> oid) \<Rightarrow> Database option \<Rightarrow> (exn + seed_response) \<times> Database option" where
  "seed_chocolates_body gen db =
     (case db of
        None \<Rightarrow> (Inl (Exception ''Database not available''), db)
      | Some d \<Rightarrow>
          (case count_documents d ''chocolate'' [] of
             Inl e \<Rightarrow> (Inl e, db)
           | Inr count \<Rightarrow>
               if count > 0 then
                 (Inr \<lparr>inserted = 0, message = Some ''Collection already has data''\<rparr>, db)
               else
                 (case insert_many d ''chocolate'' gen samples of
                    (Inl e, d') \<Rightarrow> (Inl e, Some d')
                  | (Inr inserted_ids, d') \<Rightarrow>
                      (Inr \<lparr>inserted = length inserted_ids, message = None\<rparr>, Some d'))))"

definition seed_chocolates ::
  "(nat \<Rightarrow> oid) \<Rightarrow> Database option \<Rightarrow> (exn + seed_response) \<times> Database option" where
  "seed_chocolates gen db =
     (case seed_chocolates_body gen db of
        (Inl e, db') \<Rightarrow> (Inl (HTTPException 500 (str e)), db')
      | (Inr response, db') \<Rightarrow> (Inr response, db'))"

subsection \<open>The text condition in the words of the specification\<close>


definition tagged :: "string \<Rightarrow> Chocolate \<Rightarrow> bool" where
  "tagged q c = (case tags c of None \<Rightarrow> False | Some ts \<Rightarrow> q \<in> set ts)"

subsection \<open>Example states\<close>

definition nth_id :: "nat \<Rightarrow> oid" where
  "nth_id k = [0, 0, 0, 0, 0, 0, 0, 0, 0, 0, 0, of_nat k]"

definition empty_shop :: Database where
  "empty_shop =
     \<lparr>db_name = ''shop'',
      collection_names = [],
      colls = (\<lambda>c. []),
      fault = None,
      pcre = (\<lambda>p. None)\<rparr>"

definition bar_shop :: Database where
  "bar_shop = empty_shop\<lparr>colls := (\<lambda>c. [])(''chocolate'' := [(nth_id 7, sample_bar)])\<rparr>"

definition down_shop :: Database where
  "down_shop = empty_shop\<lparr>fault := Some (PyMongoError ''No servers found yet'')\<rparr>"

definition test_body :: body where
  "test_body =
     \<lparr>body_name = ''Test Bar'',
      body_description = ''d'',
      body_price = 5.0,
      body_category = ''Bar'',
      body_cacao_percent = Omitted,
      body_image = Omitted,
      body_tags = Omitted,
      body_in_stock = Omitted\<rparr>"

definition seeded_shop :: Database where
  "seeded_shop =
     empty_shop\<lparr>colls := (\<lambda>c. [])(''chocolate'' :=
       [(nth_id 0, sample_truffle), (nth_id 1, sample_praline),
        (nth_id 2, sample_heart), (nth_id 3, sample_bar)])\<rparr>"

definition many_names :: "string list" where
  "many_names =
     [''a'', ''b'', ''c'', ''d'', ''e'', ''f'', ''g'', ''h'', ''i'', ''j'', ''k'', ''l'']"

section \<open>The diagnostic endpoint\<close>

lemmas diag_defs =
  test_database_def database_check_def collections_check_def try_except_def
  initial_response_def

lemma database_check_completes: "\<exists>r. database_check db initial_response = Inr r"
proof (cases db)
  case None
  then show ?thesis by (simp add: diag_defs)
next
  case (Some d)
  then show ?thesis
    by (cases "list_collection_names d") (simp_all add: diag_defs)
qed

lemma test_database_returns: "\<exists>r. test_database db getenv = Inr r"
  using database_check_completes [of db] by (auto simp add: test_database_def)

text \<open>
  C6. The diagnostic operation never fails: whatever the handle is (absent, reachable or
  not) and whatever the collection listing raises, \<open>test_database\<close> returns a response,
  never an exception, and the \<open>database\<close> field of that response is a status string:
  the not-initialised text without a handle, the text "Connected but Error:" followed
  by the first 50 characters of the exception's message when the listing raises, and
  "Connected & Working" otherwise.
\<close>

theorem test_database_never_fails:
  "\<exists>r. test_database db getenv = Inr r \<and>
        database r =
          (case db of
             None \<Rightarrow> warning_sign @ ''  Available but not initialized''
           | Some d \<Rightarrow>
               (case list_collection_names d of
                  Inl e \<Rightarrow> warning_sign @ ''  Connected but Error: '' @ take 50 (str e)
                | Inr cs \<Rightarrow> check_mark @ '' Connected & Working''))"
proof (cases db)
  case None
  then show ?thesis by (simp add: diag_defs)
next
  case (Some d)
  then show ?thesis
    by (cases "list_collection_names d") (simp_all add: diag_defs)
qed

theorem test_database_never_fails_witness:
  "\<exists>r. test_database (Some down_shop) Map.empty = Inr r \<and>
        database r = warning_sign @ ''  Connected but Error: No servers found yet''"
  using test_database_never_fails [of "Some down_shop" Map.empty]
  by (simp add: list_collection_names_def down_shop_def empty_shop_def)

text \<open>
  C7. The collections field of a diagnostic response has at most 10 names, and when
  the handle is present and the listing returns \<open>names\<close>, the field is \<open>names\<close> cut to
  its first 10 entries, a prefix of \<open>names\<close>.
\<close>

theorem collections_capped:
  "test_database db getenv = Inr r \<Longrightarrow>
   length (collections r) \<le> 10 \<and>
   (\<forall>d names. db = Some d \<longrightarrow> list_collection_names d = Inr names \<longrightarrow>
      collections r = take 10 names \<and> prefix (collections r) names)"
proof (cases db)
  case None
  assume "test_database db getenv = Inr r"
  with None show ?thesis by (auto simp add: diag_defs)
next
  case (Some d)
  assume "test_database db getenv = Inr r"
  with Some show ?thesis
    by (cases "list_collection_names d") (auto simp add: diag_defs take_is_prefix)
qed

theorem collections_capped_witness:
  "\<exists>r. test_database (Some (empty_shop\<lparr>collection_names := many_names\<rparr>)) Map.empty = Inr r \<and>
     collections r = [''a'', ''b'', ''c'', ''d'', ''e'', ''f'', ''g'', ''h'', ''i'', ''j'']"
proof -
  obtain r where
    r: "test_database (Some (empty_shop\<lparr>collection_names := many_names\<rparr>)) Map.empty = Inr r"
    using test_database_returns by blast
  have "list_collection_names (empty_shop\<lparr>collection_names := many_names\<rparr>) = Inr many_names"
    by (simp add: list_collection_names_def empty_shop_def)
  with collections_capped [OF r] have "collections r = take 10 many_names"
    by blast
  then have "collections r = [''a'', ''b'', ''c'', ''d'', ''e'', ''f'', ''g'', ''h'', ''i'', ''j'']"
    by (simp add: many_names_def)
  with r show ?thesis by blast
qed

text \<open>
  C8, as claimed, fails: \<open>DATABASE_URL\<close> set to the empty string and \<open>DATABASE_URL\<close>
  set to a connection string are two environments that differ only in the value of a
  set variable, and the first is reported as not set, the second as set.
\<close>

theorem env_value_counterexample:
  "dom [''DATABASE_URL'' \<mapsto> ''''] = dom [''DATABASE_URL'' \<mapsto> ''mongodb://localhost''] \<and>
   (case test_database None [''DATABASE_URL'' \<mapsto> ''''] of
      Inl e \<Rightarrow> None | Inr r \<Rightarrow> database_url r) = Some (cross_mark @ '' Not Set'') \<and>
   (case test_database None [''DATABASE_URL'' \<mapsto> ''mongodb://localhost''] of
      Inl e \<Rightarrow> None | Inr r \<Rightarrow> database_url r) = Some (check_mark @ '' Set'') \<and>
   cross_mark @ '' Not Set'' \<noteq> check_mark @ '' Set''"
  by (simp add: diag_defs truthy_def cross_mark_def check_mark_def)

text \<open>
  C8, amended. The \<open>database_url\<close> and \<open>database_name\<close> fields depend only on whether
  \<open>DATABASE_URL\<close> and \<open>DATABASE_NAME\<close> are set to a non-empty string: two runs, on any
  two handles, whose environments agree on that for both variables return responses
  with equal \<open>database_url\<close> and equal \<open>database_name\<close> fields.
\<close>

theorem env_presence_only:
  "truthy (env1 ''DATABASE_URL'') = truthy (env2 ''DATABASE_URL'') \<Longrightarrow>
   truthy (env1 ''DATABASE_NAME'') = truthy (env2 ''DATABASE_NAME'') \<Longrightarrow>
   \<exists>r1 r2. test_database db1 env1 = Inr r1 \<and> test_database db2 env2 = Inr r2 \<and>
     database_url r1 = database_url r2 \<and> database_name r1 = database_name r2"
proof -
  assume u: "truthy (env1 ''DATABASE_URL'') = truthy (env2 ''DATABASE_URL'')"
    and n: "truthy (env1 ''DATABASE_NAME'') = truthy (env2 ''DATABASE_NAME'')"
  obtain a where a: "database_check db1 initial_response = Inr a"
    using database_check_completes by blast
  obtain b where b: "database_check db2 initial_response = Inr b"
    using database_check_completes by blast
  show ?thesis using a b u n by (simp add: test_database_def)
qed

theorem env_presence_only_witness:
  "\<exists>r1 r2. test_database None [''DATABASE_URL'' \<mapsto> ''mongodb://a''] = Inr r1 \<and>
     test_database (Some empty_shop) [''DATABASE_URL'' \<mapsto> ''mongodb://b/c''] = Inr r2 \<and>
     database_url r1 = database_url r2 \<and> database_name r1 = database_name r2"
  using env_presence_only [of "[''DATABASE_URL'' \<mapsto> ''mongodb://a'']"
      "[''DATABASE_URL'' \<mapsto> ''mongodb://b/c'']" None "Some empty_shop"]
  by (simp add: truthy_def)

section \<open>Create\<close>

text \<open>
  C10. The \<open>tags\<close> field of the record that \<open>ChocolateCreate\<close> builds from a body is
  the empty sequence only when the body omits \<open>tags\<close>; a body that gives \<open>tags\<close>, as
  \<open>null\<close> or as a list, gets what it gave, so an explicit \<open>null\<close> stays \<open>None\<close>.
\<close>

theorem null_tags_stay_null:
  "tags (model_validate b) = (case body_tags b of Omitted \<Rightarrow> Some [] | Given t \<Rightarrow> t)"
  by (cases "body_tags b") (simp_all add: model_validate_def)

theorem null_tags_stay_null_witness:
  "tags (model_validate (test_body\<lparr>body_tags := Given None\<rparr>)) = None \<and>
   tags (model_validate test_body) = Some []"
  using null_tags_stay_null [of "test_body\<lparr>body_tags := Given None\<rparr>"]
    null_tags_stay_null [of test_body]
  by (simp add: test_body_def)

section \<open>List\<close>

text \<open>
  C9. An empty string for \<open>category\<close> or for \<open>q\<close> is treated as an absent parameter:
  the list operation returns the same result, for every other argument and every
  handle.
\<close>

theorem empty_parameter_is_absent:
  "list_chocolates (Some []) q limit db = list_chocolates None q limit db \<and>
   list_chocolates c (Some []) limit db = list_chocolates c None limit db"
  by (simp add: list_chocolates_def build_filter_def)

theorem empty_parameter_is_absent_witness:
  "list_chocolates (Some '''') (Some ''dark'') 50 (Some bar_shop) =
     list_chocolates None (Some ''dark'') 50 (Some bar_shop) \<and>
   list_chocolates (Some ''Bar'') (Some '''') 50 (Some bar_shop) =
     list_chocolates (Some ''Bar'') None 50 (Some bar_shop)"
  using empty_parameter_is_absent [of "Some ''dark''" 50 "Some bar_shop" "Some ''Bar''"]
  by simp

section \<open>Identifiers\<close>

lemma of_char_hexdigit:
  "n < 16 \<Longrightarrow> (of_char (hexdigit n) :: nat) = (if n < 10 then 48 + n else 87 + n)"
  by (simp add: hexdigit_def)

lemma digit_value_hexdigit: "n < 16 \<Longrightarrow> digit_value (hexdigit n) = n"
  by (simp add: digit_value_def of_char_hexdigit)

lemma not_isspace_hexdigit: "n < 16 \<Longrightarrow> \<not> isspace (hexdigit n)"
  by (simp add: isspace_def of_char_hexdigit)

lemma byte_of_nibbles: "(of_nat (unat x div 16 * 16 + unat x mod 16) :: byte) = x"
  by simp

lemma nibbles_below_16: "unat (x :: byte) div 16 < 16" "unat x mod 16 < 16"
proof -
  have "unat x < 256" using unsigned_less [of x] by simp
  then show "unat x div 16 < 16" by simp
  show "unat x mod 16 < 16" by simp
qed

lemma nibbles_not_above: "\<not> 16 \<le> unat (x :: byte) div 16" "\<not> 16 \<le> unat x mod 16"
  using nibbles_below_16 [of x] by simp_all

lemma fromhex_str_oid: "fromhex (str_oid b) = Some b"
proof (induction b)
  case Nil
  then show ?case by (simp add: str_oid_def)
next
  case (Cons x b)
  have "str_oid (x # b) = hexdigit (unat x div 16) # hexdigit (unat x mod 16) # str_oid b"
    by (simp add: str_oid_def)
  with Cons show ?case
    by (simp add: digit_value_hexdigit not_isspace_hexdigit nibbles_below_16 nibbles_not_above
        byte_of_nibbles
        del: of_nat_add of_nat_mult)
qed

lemma length_str_oid: "length (str_oid b) = 2 * length b"
  by (induction b) (simp_all add: str_oid_def)

lemma ObjectId_str_oid: "length b = 12 \<Longrightarrow> ObjectId (str_oid b) = Inr b"
  by (simp add: ObjectId_def length_str_oid fromhex_str_oid)

section \<open>Get by id\<close>

lemma matches_id: "matches d [Field ''_id'' (Eq (BObjectId i))] = (\<lambda>doc. fst doc = i)"
  by (rule ext) (auto simp add: matches_def)

lemma find_docs_id:
  "fault d = None \<Longrightarrow>
   find_docs d c [Field ''_id'' (Eq (BObjectId i))] = Inr (filter (\<lambda>doc. fst doc = i) (colls d c))"
  by (simp add: find_docs_def filter_valid_def matches_id)

lemma filter_absent: "i \<notin> fst ` set xs \<Longrightarrow> filter (\<lambda>doc. fst doc = i) xs = []"
  by (induction xs) auto

text \<open>
  C1, amended. A malformed identifier, one that \<open>ObjectId\<close> rejects, gets a server
  error: status 500, with the constructor's message as detail (or the message that the
  database is not available, when there is no handle). The not-found response, status
  404, is what a well-formed identifier gets when the store is reachable and holds no
  record of that identifier.
\<close>

theorem malformed_id_is_server_error:
  "(\<forall>e. ObjectId choc_id = Inl e \<longrightarrow>
      get_chocolate choc_id db =
        Inl (HTTPException 500
               (case db of None \<Rightarrow> ''Database not available'' | Some d \<Rightarrow> str (InvalidId choc_id)))) \<and>
   (\<forall>d i. db = Some d \<longrightarrow> fault d = None \<longrightarrow> ObjectId choc_id = Inr i \<longrightarrow>
      i \<notin> set (map fst (colls d ''chocolate'')) \<longrightarrow>
      get_chocolate choc_id db = Inl (HTTPException 404 ''Chocolate not found''))"
proof (intro conjI allI impI)
  fix e assume "ObjectId choc_id = Inl e"
  then have e: "e = InvalidId choc_id" and bad: "ObjectId choc_id = Inl (InvalidId choc_id)"
    by (auto simp add: ObjectId_def split: if_splits option.splits)
  show "get_chocolate choc_id db =
        Inl (HTTPException 500
               (case db of None \<Rightarrow> ''Database not available'' | Some d \<Rightarrow> str (InvalidId choc_id)))"
    using bad by (cases db) (simp_all add: get_chocolate_def get_chocolate_body_def)
next
  fix d i
  assume "db = Some d" "fault d = None" "ObjectId choc_id = Inr i"
    "i \<notin> set (map fst (colls d ''chocolate''))"
  then show "get_chocolate choc_id db = Inl (HTTPException 404 ''Chocolate not found'')"
    by (simp add: get_chocolate_def get_chocolate_body_def find_one_def find_docs_id
        filter_absent)
qed

text \<open>
  C1, as claimed, fails: the identifier \<open>abc\<close> is malformed, and on a reachable, empty
  store the response is the server error with the constructor's message, not the
  not-found response.
\<close>

theorem malformed_id_counterexample:
  "ObjectId ''abc'' = Inl (InvalidId ''abc'') \<and>
   get_chocolate ''abc'' (Some empty_shop) =
     Inl (HTTPException 500
       '''abc' is not a valid ObjectId, it must be a 12-byte input or a 24-character hex string'') \<and>
   get_chocolate ''abc'' (Some empty_shop) \<noteq> Inl (HTTPException 404 ''Chocolate not found'')"
  by (simp add: get_chocolate_def get_chocolate_body_def ObjectId_def)

theorem malformed_id_is_server_error_witness:
  "ObjectId ''not-an-id'' = Inl (InvalidId ''not-an-id'') \<and>
   get_chocolate ''not-an-id'' (Some bar_shop) =
     Inl (HTTPException 500 (str (InvalidId ''not-an-id''))) \<and>
   ObjectId ''000000000000000000000001'' = Inr (nth_id 1) \<and>
   get_chocolate ''000000000000000000000001'' (Some bar_shop) =
     Inl (HTTPException 404 ''Chocolate not found'')"
proof -
  have bad: "ObjectId ''not-an-id'' = Inl (InvalidId ''not-an-id'')"
    by (simp add: ObjectId_def)
  have good: "ObjectId ''000000000000000000000001'' = Inr (nth_id 1)"
    by (simp add: ObjectId_def nth_id_def digit_value_def isspace_def)
  have fresh: "nth_id 1 \<notin> set (map fst (colls bar_shop ''chocolate''))"
    by (simp add: bar_shop_def empty_shop_def nth_id_def)
  have ok: "fault bar_shop = None"
    by (simp add: bar_shop_def empty_shop_def)
  from malformed_id_is_server_error [of "''not-an-id''" "Some bar_shop"] bad
  have 1: "get_chocolate ''not-an-id'' (Some bar_shop) =
     Inl (HTTPException 500 (str (InvalidId ''not-an-id'')))" by simp
  from malformed_id_is_server_error [of "''000000000000000000000001''" "Some bar_shop"]
    good fresh ok
  have 2: "get_chocolate ''000000000000000000000001'' (Some bar_shop) =
     Inl (HTTPException 404 ''Chocolate not found'')" by blast
  from bad good 1 2 show ?thesis by blast
qed


section \<open>Create, then get\<close>

lemma filter_appended:
  "i \<notin> fst ` set xs \<Longrightarrow> filter (\<lambda>doc. fst doc = i) (xs @ [(i, c)]) = [(i, c)]"
  by (simp add: filter_absent)

lemma create_chocolate_inserts:
  "fault d = None \<Longrightarrow> new_id \<notin> set (map fst (colls d ''chocolate'')) \<Longrightarrow>
   create_chocolate payload new_id (Some d) =
     (Inr (str_oid new_id),
      Some (d\<lparr>colls := (colls d)(''chocolate'' := colls d ''chocolate'' @ [(new_id, payload)])\<rparr>))"
  by (simp add: create_chocolate_def Chocolate_def create_document_def insert_one_def)

lemma get_chocolate_finds:
  "fault d = None \<Longrightarrow> length i = 12 \<Longrightarrow>
   filter (\<lambda>doc. fst doc = i) (colls d ''chocolate'') = (i, c) # rest \<Longrightarrow>
   get_chocolate (str_oid i) (Some d) = Inr (str_oid i, c)"
  by (simp add: get_chocolate_def get_chocolate_body_def ObjectId_str_oid find_one_def
      find_docs_id)

text \<open>
  C2. For every accepted body: when the store is reachable and the identifier the
  driver generates is a 12-byte identifier that the collection does not hold yet,
  creating returns the string form of that identifier, and getting by that string, in
  the state the creation left, returns a record with that \<open>id\<close> whose fields are the
  body's, where an omitted \<open>tags\<close> is the empty sequence, an omitted \<open>in_stock\<close> is
  true, and an omitted \<open>cacao_percent\<close> or \<open>image\<close> is \<open>None\<close>.
\<close>

theorem create_then_get:
  assumes "db = Some d" and "fault d = None" and "length new_id = 12"
    and "new_id \<notin> set (map fst (colls d ''chocolate''))"
  shows "\<exists>db'. create_chocolate (model_validate b) new_id db = (Inr (str_oid new_id), db') \<and>
           get_chocolate (str_oid new_id) db' =
             Inr (str_oid new_id,
                  \<lparr>name = body_name b,
                   description = body_description b,
                   price = body_price b,
                   category = body_category b,
                   cacao_percent =
                     (case body_cacao_percent b of Omitted \<Rightarrow> None | Given v \<Rightarrow> v),
                   image = (case body_image b of Omitted \<Rightarrow> None | Given v \<Rightarrow> v),
                   tags = (case body_tags b of Omitted \<Rightarrow> Some [] | Given v \<Rightarrow> v),
                   in_stock = (case body_in_stock b of Omitted \<Rightarrow> True | Given v \<Rightarrow> v)\<rparr>)"
proof -
  let ?d' = "d\<lparr>colls := (colls d)(''chocolate'' :=
               colls d ''chocolate'' @ [(new_id, model_validate b)])\<rparr>"
  have created: "create_chocolate (model_validate b) new_id db = (Inr (str_oid new_id), Some ?d')"
    using assms by (simp add: create_chocolate_inserts)
  have "filter (\<lambda>doc. fst doc = new_id) (colls ?d' ''chocolate'') = [(new_id, model_validate b)]"
    using assms(4) by (simp add: filter_absent)
  moreover have "fault ?d' = None" using assms(2) by simp
  ultimately have "get_chocolate (str_oid new_id) (Some ?d') = Inr (str_oid new_id, model_validate b)"
    using assms(3) get_chocolate_finds by blast
  moreover have "model_validate b =
      \<lparr>name = body_name b,
       description = body_description b,
       price = body_price b,
       category = body_category b,
       cacao_percent = (case body_cacao_percent b of Omitted \<Rightarrow> None | Given v \<Rightarrow> v),
       image = (case body_image b of Omitted \<Rightarrow> None | Given v \<Rightarrow> v),
       tags = (case body_tags b of Omitted \<Rightarrow> Some [] | Given v \<Rightarrow> v),
       in_stock = (case body_in_stock b of Omitted \<Rightarrow> True | Given v \<Rightarrow> v)\<rparr>"
    by (cases "body_cacao_percent b"; cases "body_image b"; cases "body_tags b";
        cases "body_in_stock b") (simp_all add: model_validate_def)
  ultimately show ?thesis using created by auto
qed

theorem create_then_get_witness:
  "\<exists>db'. create_chocolate (model_validate test_body) (nth_id 8) (Some bar_shop) =
            (Inr ''000000000000000000000008'', db') \<and>
     get_chocolate ''000000000000000000000008'' db' =
       Inr (''000000000000000000000008'',
            \<lparr>name = ''Test Bar'', description = ''d'', price = 5.0, category = ''Bar'',
             cacao_percent = None, image = None, tags = Some [], in_stock = True\<rparr>)"
proof -
  have 1: "fault bar_shop = None" by (simp add: bar_shop_def empty_shop_def)
  have 2: "length (nth_id 8) = 12" by (simp add: nth_id_def)
  have 3: "nth_id 8 \<notin> set (map fst (colls bar_shop ''chocolate''))"
    by (simp add: bar_shop_def empty_shop_def nth_id_def)
  have 4: "str_oid (nth_id 8) = ''000000000000000000000008''"
    by code_simp
  show ?thesis
    using create_then_get [OF refl 1 2 3, of test_body] by (simp add: 4 test_body_def)
qed

section \<open>Seed\<close>

lemma count_documents_all: "fault d = None \<Longrightarrow> count_documents d c [] = Inr (length (colls d c))"
  by (simp add: count_documents_def find_docs_def filter_valid_def matches_def)

lemma seed_nonempty:
  "fault d = None \<Longrightarrow> colls d ''chocolate'' \<noteq> [] \<Longrightarrow>
   seed_chocolates gen (Some d) =
     (Inr \<lparr>inserted = 0, message = Some ''Collection already has data''\<rparr>, Some d)"
  by (simp add: seed_chocolates_def seed_chocolates_body_def count_documents_all)

lemma upt_4: "[0..<4] = [0, Suc 0, Suc (Suc 0), Suc (Suc (Suc 0))]"
  by (simp add: upt_rec numeral_eq_Suc)

lemma seed_empty:
  "fault d = None \<Longrightarrow> colls d ''chocolate'' = [] \<Longrightarrow> distinct (map gen [0..<4]) \<Longrightarrow>
   seed_chocolates gen (Some d) =
     (Inr \<lparr>inserted = 4, message = None\<rparr>,
      Some (d\<lparr>colls := (colls d)(''chocolate'' := zip (map gen [0..<4]) samples)\<rparr>))"
  by (auto simp add: seed_chocolates_def seed_chocolates_body_def count_documents_all
      insert_many_def samples_def insert_one_def upt_4)

text \<open>
  C3. On a reachable store: seeding an empty collection, with four distinct generated
  identifiers, inserts exactly the 4 samples and reports 4; seeding a collection that
  holds at least one record changes nothing and reports 0 inserted with the message
  "Collection already has data". So after a first successful run, every further run
  reports 0 with that message and leaves the state as it is.
\<close>

theorem seed_is_idempotent:
  "db = Some d \<Longrightarrow> fault d = None \<Longrightarrow>
   (colls d ''chocolate'' = [] \<longrightarrow> distinct (map gen [0..<4]) \<longrightarrow>
      (\<exists>d'. seed_chocolates gen db = (Inr \<lparr>inserted = 4, message = None\<rparr>, Some d') \<and>
            length (colls d' ''chocolate'') = 4 \<and>
            map snd (colls d' ''chocolate'') = samples \<and>
            (\<forall>gen'. seed_chocolates gen' (Some d') =
               (Inr \<lparr>inserted = 0, message = Some ''Collection already has data''\<rparr>, Some d')))) \<and>
   (colls d ''chocolate'' \<noteq> [] \<longrightarrow>
      seed_chocolates gen db =
        (Inr \<lparr>inserted = 0, message = Some ''Collection already has data''\<rparr>, db))"
proof (intro conjI impI)
  assume db: "db = Some d" and ok: "fault d = None"
    and empty: "colls d ''chocolate'' = []" and fresh: "distinct (map gen [0..<4])"
  let ?d' = "d\<lparr>colls := (colls d)(''chocolate'' := zip (map gen [0..<4]) samples)\<rparr>"
  have first: "seed_chocolates gen db = (Inr \<lparr>inserted = 4, message = None\<rparr>, Some ?d')"
    using db ok empty fresh by (simp add: seed_empty)
  have len: "length (colls ?d' ''chocolate'') = 4" by (simp add: samples_def)
  have docs: "map snd (colls ?d' ''chocolate'') = samples" by (simp add: samples_def upt_4)
  have "fault ?d' = None" using ok by simp
  moreover have "colls ?d' ''chocolate'' \<noteq> []" using len by auto
  ultimately have again: "\<forall>gen'. seed_chocolates gen' (Some ?d') =
      (Inr \<lparr>inserted = 0, message = Some ''Collection already has data''\<rparr>, Some ?d')"
    using seed_nonempty by blast
  from first len docs again
  show "\<exists>d'. seed_chocolates gen db = (Inr \<lparr>inserted = 4, message = None\<rparr>, Some d') \<and>
            length (colls d' ''chocolate'') = 4 \<and>
            map snd (colls d' ''chocolate'') = samples \<and>
            (\<forall>gen'. seed_chocolates gen' (Some d') =
               (Inr \<lparr>inserted = 0, message = Some ''Collection already has data''\<rparr>, Some d'))"
    by blast
next
  assume "db = Some d" "fault d = None" "colls d ''chocolate'' \<noteq> []"
  then show "seed_chocolates gen db =
        (Inr \<lparr>inserted = 0, message = Some ''Collection already has data''\<rparr>, db)"
    by (simp add: seed_nonempty)
qed

theorem seed_is_idempotent_witness:
  "(\<exists>d'. seed_chocolates nth_id (Some empty_shop) = (Inr \<lparr>inserted = 4, message = None\<rparr>, Some d') \<and>
        length (colls d' ''chocolate'') = 4 \<and>
        seed_chocolates nth_id (Some d') =
          (Inr \<lparr>inserted = 0, message = Some ''Collection already has data''\<rparr>, Some d')) \<and>
   seed_chocolates nth_id (Some bar_shop) =
     (Inr \<lparr>inserted = 0, message = Some ''Collection already has data''\<rparr>, Some bar_shop)"
proof -
  have 1: "fault empty_shop = None" "colls empty_shop ''chocolate'' = []"
    by (simp_all add: empty_shop_def)
  have 2: "distinct (map nth_id [0..<4])" by (simp add: upt_4 nth_id_def)
  have 3: "fault bar_shop = None" "colls bar_shop ''chocolate'' \<noteq> []"
    by (simp_all add: bar_shop_def empty_shop_def)
  from seed_is_idempotent [OF refl 1(1), of nth_id] 1(2) 2
  have a: "\<exists>d'. seed_chocolates nth_id (Some empty_shop) = (Inr \<lparr>inserted = 4, message = None\<rparr>, Some d') \<and>
        length (colls d' ''chocolate'') = 4 \<and>
        seed_chocolates nth_id (Some d') =
          (Inr \<lparr>inserted = 0, message = Some ''Collection already has data''\<rparr>, Some d')"
    by blast
  from seed_is_idempotent [OF refl 3(1), of nth_id] 3(2)
  have b: "seed_chocolates nth_id (Some bar_shop) =
     (Inr \<lparr>inserted = 0, message = Some ''Collection already has data''\<rparr>, Some bar_shop)"
    by blast
  from a b show ?thesis by blast
qed

section \<open>List: the filters\<close>





lemma get_documents_ok:
  "fault d = None \<Longrightarrow> filter_valid d f \<Longrightarrow>
   get_documents (Some d) c f limit = Inr (take (nat limit) (filter (matches d f) (colls d c)))"
  by (simp add: get_documents_def find_docs_def)

lemma list_chocolates_ok:
  "fault d = None \<Longrightarrow> filter_valid d (build_filter c q) \<Longrightarrow>
   list_chocolates c q limit (Some d) =
     Inr (map to_item (take (nat limit)
       (filter (matches d (build_filter c q)) (colls d ''chocolate''))))"
  by (simp add: list_chocolates_def get_documents_ok)

lemma category_clause:
  "clause_matches d doc (Field ''category'' (Eq (BString c))) = (category (snd doc) = c)"
  by (cases doc) simp

lemma tags_clause:
  "clause_matches d doc (Field ''tags'' (In [BString q])) = tagged q (snd doc)"
  by (cases doc) (auto simp add: tagged_def list_ex_iff split: option.splits)

lemma name_clause:
  "regex_i d q = Some m \<Longrightarrow>
   clause_matches d doc (Field ''name'' (Regex_i q)) = m (name (snd doc))"
  by (cases doc) simp

lemma text_clause:
  "regex_i d q = Some m \<Longrightarrow>
   clause_matches d doc (Or [Field ''name'' (Regex_i q), Field ''tags'' (In [BString q])]) =
     (m (name (snd doc)) \<or> tagged q (snd doc))"
  by (simp add: name_clause tags_clause del: clause_matches.simps(1))







lemma category_only:
  "c \<noteq> [] \<Longrightarrow>
   matches d (build_filter (Some c) None) = (\<lambda>doc. category (snd doc) = c)"
  by (rule ext) (simp add: matches_def build_filter_def category_clause del: clause_matches.simps)

lemma category_and_text:
  "c \<noteq> [] \<Longrightarrow> q \<noteq> [] \<Longrightarrow> regex_i d q = Some m \<Longrightarrow>
   matches d (build_filter (Some c) (Some q)) =
     (\<lambda>doc. category (snd doc) = c \<and> (m (name (snd doc)) \<or> tagged q (snd doc)))"
  by (rule ext)
    (simp add: matches_def build_filter_def category_clause text_clause
      del: clause_matches.simps)

lemma category_first:
  "c \<noteq> [] \<Longrightarrow> matches d (build_filter (Some c) q) doc \<Longrightarrow> category (snd doc) = c"
  by (simp add: matches_def build_filter_def category_clause del: clause_matches.simps)

lemma list_chocolates_items:
  "list_chocolates c q limit db = Inr items \<Longrightarrow>
   \<exists>d. db = Some d \<and>
     items = map to_item (take (nat limit)
       (filter (matches d (build_filter c q)) (colls d ''chocolate'')))"
  by (auto simp add: list_chocolates_def get_documents_def find_docs_def
      split: option.splits sum.splits if_splits)

text \<open>
  C5, amended. For every non-empty category string \<open>c\<close>: every record the list
  operation returns has a category field equal to \<open>c\<close>, character for character; on a
  reachable store, without \<open>q\<close> the result is the records of category \<open>c\<close>, and with a
  non-empty \<open>q\<close> whose pattern compiles to \<open>m\<close> it is the records that are of category
  \<open>c\<close> and also are hit by \<open>q\<close> (name matched by \<open>m\<close>, or \<open>q\<close> among the tags), each
  in store order and cut to the result cap \<open>limit\<close>.
\<close>

theorem category_filter:
  assumes "c \<noteq> []"
  shows "(\<forall>items. list_chocolates (Some c) q limit db = Inr items \<longrightarrow>
            list_all (\<lambda>it. category (snd it) = c) items) \<and>
         (\<forall>d. db = Some d \<longrightarrow> fault d = None \<longrightarrow>
            list_chocolates (Some c) None limit db =
              Inr (map to_item (take (nat limit)
                (filter (\<lambda>doc. category (snd doc) = c) (colls d ''chocolate''))))) \<and>
         (\<forall>d t m. db = Some d \<longrightarrow> fault d = None \<longrightarrow> t \<noteq> [] \<longrightarrow> regex_i d t = Some m \<longrightarrow>
            list_chocolates (Some c) (Some t) limit db =
              Inr (map to_item (take (nat limit)
                (filter (\<lambda>doc. category (snd doc) = c \<and>
                                (m (name (snd doc)) \<or> tagged t (snd doc)))
                   (colls d ''chocolate'')))))"
proof (intro conjI allI impI)
  fix items assume "list_chocolates (Some c) q limit db = Inr items"
  then obtain d where
    items: "items = map to_item (take (nat limit)
       (filter (matches d (build_filter (Some c) q)) (colls d ''chocolate'')))"
    using list_chocolates_items by blast
  have "\<forall>doc \<in> set (take (nat limit)
       (filter (matches d (build_filter (Some c) q)) (colls d ''chocolate''))).
       category (snd doc) = c"
    using assms category_first by (auto dest!: in_set_takeD)
  then show "list_all (\<lambda>it. category (snd it) = c) items"
    unfolding items by (auto simp add: list_all_iff)
next
  fix d assume "db = Some d" "fault d = None"
  moreover have "filter_valid d (build_filter (Some c) None)"
    by (simp add: filter_valid_def build_filter_def)
  ultimately show "list_chocolates (Some c) None limit db =
      Inr (map to_item (take (nat limit)
        (filter (\<lambda>doc. category (snd doc) = c) (colls d ''chocolate''))))"
    using assms by (simp add: list_chocolates_ok category_only)
next
  fix d t m
  assume "db = Some d" "fault d = None" and t: "t \<noteq> []" and m: "regex_i d t = Some m"
  moreover have "filter_valid d (build_filter (Some c) (Some t))"
    using m by (simp add: filter_valid_def build_filter_def)
  ultimately show "list_chocolates (Some c) (Some t) limit db =
      Inr (map to_item (take (nat limit)
        (filter (\<lambda>doc. category (snd doc) = c \<and> (m (name (snd doc)) \<or> tagged t (snd doc)))
           (colls d ''chocolate''))))"
    using assms by (simp add: list_chocolates_ok category_and_text)
qed

text \<open>
  C5, as claimed, fails for the empty category string: no filter is applied, and a
  record of category "Bar" is returned.
\<close>

theorem category_filter_counterexample:
  "list_chocolates (Some '''') None 50 (Some bar_shop) =
     Inr [(''000000000000000000000007'', sample_bar)] \<and>
   category sample_bar \<noteq> ''''"
proof -
  have 1: "str_oid (nth_id 7) = ''000000000000000000000007''" by code_simp
  have 2: "list_chocolates (Some '''') None 50 (Some bar_shop) =
     Inr [(''000000000000000000000007'', sample_bar)]"
    using 1
    by (simp add: list_chocolates_def get_documents_def find_docs_def build_filter_def
        filter_valid_def matches_def bar_shop_def empty_shop_def)
  have 3: "category sample_bar \<noteq> ''''" by (simp add: sample_bar_def)
  from 2 3 show ?thesis by blast
qed

theorem category_filter_witness:
  "list_chocolates (Some ''Bonbon'') None 50 (Some seeded_shop) =
     Inr [(''000000000000000000000001'', sample_praline),
          (''000000000000000000000002'', sample_heart)] \<and>
   list_chocolates (Some ''bonbon'') None 50 (Some seeded_shop) = Inr [] \<and>
   list_chocolates (Some ''Bonbon'') (Some ''dark'') 50 (Some seeded_shop) =
     Inr [(''000000000000000000000002'', sample_heart)]"
proof -
  have ok: "fault seeded_shop = None" by (simp add: seeded_shop_def empty_shop_def)
  have ids: "str_oid (nth_id (Suc 0)) = ''000000000000000000000001''"
    "str_oid (nth_id 2) = ''000000000000000000000002''"
    by code_simp+
  have docs: "colls seeded_shop ''chocolate'' =
       [(nth_id 0, sample_truffle), (nth_id 1, sample_praline),
        (nth_id 2, sample_heart), (nth_id 3, sample_bar)]"
    by (simp add: seeded_shop_def)
  have cats: "category sample_truffle = ''Truffle''" "category sample_praline = ''Bonbon''"
    "category sample_heart = ''Bonbon''" "category sample_bar = ''Bar''"
    by (simp_all add: sample_truffle_def sample_praline_def sample_heart_def sample_bar_def)
  have rx: "regex_i seeded_shop ''dark'' = Some (search ''dark'')"
    by (simp add: regex_i_def modelled_def metachars_def)
  have hits: "\<not> search ''dark'' (name sample_praline)" "\<not> tagged ''dark'' sample_praline"
    "tagged ''dark'' sample_heart"
    by code_simp+
  have 1: "list_chocolates (Some ''Bonbon'') None 50 (Some seeded_shop) =
     Inr [(''000000000000000000000001'', sample_praline),
          (''000000000000000000000002'', sample_heart)]"
    using category_filter [of "''Bonbon''" None 50 "Some seeded_shop"] ok
    by (simp add: docs cats ids)
  have 2: "list_chocolates (Some ''bonbon'') None 50 (Some seeded_shop) = Inr []"
    using category_filter [of "''bonbon''" None 50 "Some seeded_shop"] ok
    by (simp add: docs cats)
  have 3: "list_chocolates (Some ''Bonbon'') (Some ''dark'') 50 (Some seeded_shop) =
     Inr [(''000000000000000000000002'', sample_heart)]"
    using category_filter [of "''Bonbon''" None 50 "Some seeded_shop"] ok rx
    by (simp add: docs cats ids hits)
  from 1 2 3 show ?thesis by blast
qed

end
